theory Spec2Isabelle
  imports Main "HOL-Library.Sublist"
begin

section \<open>The bivvy launcher (\<^verbatim>\<open>dist/pip/bivvy/__init__.py\<close>)\<close>

text \<open>
  The module is a self-installing launcher: \<^verbatim>\<open>main\<close> makes sure that the prebuilt
  binary is present beside the package (\<^verbatim>\<open>ensure_binary\<close>, which calls
  \<^verbatim>\<open>download_binary\<close> when the file is missing) and then runs it with the
  arguments it received, exiting with the child's return code.

  The embedding is shallow. What the module reads from its host (platform strings,
  \<^verbatim>\<open>sys.argv\<close>, the network, what the operating system allows, the behaviour of the
  child process) is a record \<open>host\<close> that never changes during a run. What it changes
  (the entries of \<^verbatim>\<open>BINARY_DIR\<close>) and what it does that can be observed (printing,
  opening a URL, extracting, chmod, spawning) is a record \<open>world\<close> passed from call to
  call. A Python exception is a value \<open>Inl e\<close>; the world reached when it was raised is
  returned with it.
\<close>

subsection \<open>Exceptions, archives, directory entries, events\<close>

datatype error =
    RuntimeError string         \<comment> \<open>\<^verbatim>\<open>raise RuntimeError(msg)\<close> in \<^verbatim>\<open>get_platform\<close>\<close>
  | URLError                    \<comment> \<open>\<^verbatim>\<open>urllib.request.urlopen\<close> failed (network or HTTP status)\<close>
  | ReadError                   \<comment> \<open>\<^verbatim>\<open>tarfile.open\<close>: the body is not a gzip tar archive\<close>
  | UnsupportedOperation        \<comment> \<open>\<^verbatim>\<open>io.UnsupportedOperation: seek\<close> on the HTTP response\<close>
  | OSError string              \<comment> \<open>any other failure of \<^verbatim>\<open>mkdir\<close>, \<^verbatim>\<open>tar.extract\<close> or \<^verbatim>\<open>subprocess.run\<close>\<close>
  | FileNotFoundError string    \<comment> \<open>\<^verbatim>\<open>chmod\<close> or \<^verbatim>\<open>subprocess.run\<close> on a missing file\<close>
  | PermissionError string      \<comment> \<open>writing or running what the user may not write or run\<close>

text \<open>
  A member of a tar archive (\<^verbatim>\<open>tarfile.TarInfo\<close> with its content). The loop of
  \<^verbatim>\<open>download_binary\<close> looks at the name only, so a member of any type can be
  selected: a regular file, a directory, or something else (a link, a fifo, a device).
  Only a regular file has data.
\<close>

datatype kind = REGTYPE | DIRTYPE | OTHERTYPE

record tarinfo =
  name :: string
  type :: kind
  mode :: nat
  data :: string

text \<open>
  What a name of \<^verbatim>\<open>BINARY_DIR\<close> leads to: a regular file with its bytes and its
  permission bits, a directory with its permission bits, or something else.
\<close>

datatype node = File string nat | Dir nat | Special

text \<open>The body of an HTTP response, as \<^verbatim>\<open>tarfile.open(mode="r:gz")\<close> sees it.\<close>

datatype payload = NotGzipTar | GzipTar "tarinfo list"

datatype event =
    Print string
  | Mkdir
  | Urlopen string
  | Extract tarinfo
  | Chmod string nat
  | Spawn "string list"

text \<open>
  The last six fields are decisions of the library and of the operating system that
  the module cannot see into; each is a function of what the decision depends on.
\<close>

record host =
  sys_platform :: string                          \<comment> \<open>\<^verbatim>\<open>sys.platform\<close>\<close>
  platform_system :: string                       \<comment> \<open>\<^verbatim>\<open>platform.system()\<close>\<close>
  platform_machine :: string                      \<comment> \<open>\<^verbatim>\<open>platform.machine()\<close>\<close>
  sys_argv :: "string list"                       \<comment> \<open>\<^verbatim>\<open>sys.argv\<close>\<close>
  module_dir :: string                            \<comment> \<open>\<^verbatim>\<open>Path(__file__).parent\<close>\<close>
  network :: "string \<Rightarrow> error + payload"          \<comment> \<open>what a GET of a URL gives\<close>
  child :: "string list \<Rightarrow> int"                  \<comment> \<open>the return code of the binary run with an argv\<close>
  mkdir_error :: "error option"                   \<comment> \<open>whether creating \<^verbatim>\<open>BINARY_DIR\<close> fails\<close>
  held :: "tarinfo list \<Rightarrow> nat"
    \<comment> \<open>how many bytes before the end of the members the reader of the archive still
       holds once \<^verbatim>\<open>getmembers()\<close> has read the stream through\<close>
  os_error :: "tarinfo \<Rightarrow> node option \<Rightarrow> (error \<times> node option) option"
    \<comment> \<open>the error, if any, that writing a member over what is at its path meets for the
       calling user, and what is at the path afterwards (nothing, the old entry, a
       partial file)\<close>
  special_resolves :: bool
    \<comment> \<open>whether a link in \<^verbatim>\<open>BINARY_DIR\<close> leads to something that exists\<close>
  exec_error :: "node \<Rightarrow> error option"
    \<comment> \<open>the error, if any, of starting what is at a path as a program, for the calling
       user\<close>
  os_status :: "int \<Rightarrow> int"
    \<comment> \<open>the exit status of the process for a code given to \<^verbatim>\<open>sys.exit\<close>, where the
       model does not fix it\<close>

text \<open>
  \<open>files\<close> are the entries of \<^verbatim>\<open>BINARY_DIR\<close> by name; \<open>trace\<close> is the log of what
  the run did, oldest event first.
\<close>

record world =
  files :: "string \<rightharpoonup> node"
  trace :: "event list"

type_synonym 'a io = "world \<Rightarrow> (error + 'a) \<times> world"

definition return :: "'a \<Rightarrow> 'a io" where
  "return x w = (Inr x, w)"

text \<open>Sequencing of statements: an exception of the first ends the block.\<close>

definition andThen :: "'a io \<Rightarrow> ('a \<Rightarrow> 'b io) \<Rightarrow> 'b io" where
  "andThen m f w = (case m w of (Inl e, w') \<Rightarrow> (Inl e, w') | (Inr x, w') \<Rightarrow> f x w')"

definition lift :: "error + 'a \<Rightarrow> 'a io" where
  "lift r w = (r, w)"

definition emit :: "event \<Rightarrow> world \<Rightarrow> world" where
  "emit ev w = w\<lparr>trace := trace w @ [ev]\<rparr>"

subsection \<open>Library calls\<close>

text \<open>
  \<^verbatim>\<open>str.lower()\<close> on ASCII text: the letters A to Z move to a to z, every other
  character stays. The keys of both platform tables are ASCII.
\<close>

definition lower_char :: "char \<Rightarrow> char" where
  "lower_char c =
     (let n = (of_char c :: nat) in if 65 \<le> n \<and> n \<le> 90 then char_of (n + 32) else c)"

definition lower :: "string \<Rightarrow> string" where
  "lower s = map lower_char s"

definition print :: "string \<Rightarrow> unit io" where
  "print msg w = (Inr (), emit (Print msg) w)"

text \<open>\<^verbatim>\<open>BINARY_DIR.mkdir(parents=True, exist_ok=True)\<close>: no file of the directory changes.\<close>

definition mkdir :: "host \<Rightarrow> unit io" where
  "mkdir h w = (case mkdir_error h of Some e \<Rightarrow> (Inl e, w) | None \<Rightarrow> (Inr (), emit Mkdir w))"

text \<open>\<^verbatim>\<open>urllib.request.urlopen(url)\<close>: the request is made, then it fails or gives a body.\<close>

definition urlopen :: "host \<Rightarrow> string \<Rightarrow> payload io" where
  "urlopen h url w = (network h url, emit (Urlopen url) w)"

text \<open>\<^verbatim>\<open>tarfile.open(fileobj=response, mode="r:gz")\<close> followed by \<^verbatim>\<open>tar.getmembers()\<close>.\<close>

definition tarfile_open :: "payload \<Rightarrow> error + tarinfo list" where
  "tarfile_open p = (case p of NotGzipTar \<Rightarrow> Inl ReadError | GzipTar ms \<Rightarrow> Inr ms)"

text \<open>
  The layout of a tar stream: every member has a header block of 512 bytes, followed,
  for a regular file, by its data padded to whole blocks. (Longer headers only move the
  members further apart.) \<open>behind m rest\<close> is the distance from the first byte of the
  data of \<open>m\<close> to the end of the members, \<open>rest\<close> being the members after \<open>m\<close>.
\<close>

definition member_size :: "tarinfo \<Rightarrow> nat" where
  "member_size m = (if type m = REGTYPE then length (data m) else 0)"

definition blocks :: "nat \<Rightarrow> nat" where
  "blocks n = ((n + 511) div 512) * 512"

definition footprint :: "tarinfo \<Rightarrow> nat" where
  "footprint m = 512 + blocks (member_size m)"

definition behind :: "tarinfo \<Rightarrow> tarinfo list \<Rightarrow> nat" where
  "behind m rest = blocks (member_size m) + sum_list (map footprint rest)"

text \<open>\<^verbatim>\<open>io.DEFAULT_BUFFER_SIZE\<close>, the size of the buffer of the gzip reader.\<close>

definition DEFAULT_BUFFER_SIZE :: nat where
  "DEFAULT_BUFFER_SIZE = 8192"

text \<open>
  \<^verbatim>\<open>source.seek(tarinfo.offset_data)\<close> in \<^verbatim>\<open>TarFile.makefile\<close>. The archive was
  opened in mode \<^verbatim>\<open>r:gz\<close> on the HTTP response, and \<^verbatim>\<open>getmembers()\<close> has read
  it to the end of the members at least. Going back to the data of a member is served
  from the buffer of the reader when the data is still there; otherwise the reader has to
  rewind the response, which cannot seek. The buffer never holds more than its size, so a
  member whose data starts further back than that is never reached.
\<close>

definition seek_ok :: "host \<Rightarrow> tarinfo list \<Rightarrow> tarinfo \<Rightarrow> tarinfo list \<Rightarrow> bool" where
  "seek_ok h tar m rest = (behind m rest \<le> min DEFAULT_BUFFER_SIZE (held h tar))"

text \<open>What a successful extraction of a member leaves at its path.\<close>

definition node_of :: "tarinfo \<Rightarrow> node" where
  "node_of m =
     (case type m of
        REGTYPE \<Rightarrow> File (data m) (mode m)
      | DIRTYPE \<Rightarrow> Dir (mode m)
      | OTHERTYPE \<Rightarrow> Special)"

text \<open>
  \<^verbatim>\<open>tar.extract(member, BINARY_DIR)\<close>, for a member of the archive \<open>tar\<close> that is
  followed there by \<open>rest\<close>. A regular file is first sought in the stream, before
  anything is written. Then the member is written at its name, over what is there; the
  operating system may refuse (a file the user may not write, a directory in the way) or
  stop the writing half way (a full disk), and decides what is at the path then.
\<close>

definition tar_extract :: "host \<Rightarrow> tarinfo list \<Rightarrow> tarinfo list \<Rightarrow> tarinfo \<Rightarrow> unit io" where
  "tar_extract h tar rest m w =
     (if type m = REGTYPE \<and> \<not> seek_ok h tar m rest then (Inl UnsupportedOperation, w)
      else
        (case os_error h m (files w (name m)) of
           Some (e, left) \<Rightarrow> (Inl e, w\<lparr>files := (files w)(name m := left)\<rparr>)
         | None \<Rightarrow>
             (Inr (), emit (Extract m) (w\<lparr>files := (files w)(name m \<mapsto> node_of m)\<rparr>))))"

text \<open>
  Whether a path through an entry reaches something: \<^verbatim>\<open>Path.exists()\<close>,
  \<^verbatim>\<open>Path.chmod\<close> and \<^verbatim>\<open>subprocess.run\<close> all follow links.
\<close>

definition resolves :: "host \<Rightarrow> node \<Rightarrow> bool" where
  "resolves h n = (case n of Special \<Rightarrow> special_resolves h | _ \<Rightarrow> True)"

definition set_perm :: "nat \<Rightarrow> node \<Rightarrow> node" where
  "set_perm md n = (case n of File c p \<Rightarrow> File c md | Dir p \<Rightarrow> Dir md | Special \<Rightarrow> Special)"

text \<open>\<^verbatim>\<open>Path.chmod(mode)\<close> on an entry of \<^verbatim>\<open>BINARY_DIR\<close>.\<close>

definition chmod :: "host \<Rightarrow> string \<Rightarrow> nat \<Rightarrow> unit io" where
  "chmod h fname md w =
     (case files w fname of
        None \<Rightarrow> (Inl (FileNotFoundError fname), w)
      | Some n \<Rightarrow>
          if resolves h n
          then (Inr (), emit (Chmod fname md) (w\<lparr>files := (files w)(fname \<mapsto> set_perm md n)\<rparr>))
          else (Inl (FileNotFoundError fname), w))"

subsection \<open>Module constants\<close>

definition version :: string where
  "version = ''1.0.1''"

definition GITHUB_REPO :: string where
  "GITHUB_REPO = ''bivvy-dev/bivvy''"

definition BINARY_NAME :: "host \<Rightarrow> string" where
  "BINARY_NAME h = (if sys_platform h = ''win32'' then ''bivvy.exe'' else ''bivvy'')"

text \<open>The separator \<^verbatim>\<open>pathlib\<close> joins with: a backslash on Windows, a slash elsewhere.\<close>

definition sep :: "host \<Rightarrow> string" where
  "sep h = (if sys_platform h = ''win32'' then [CHR 0x5C] else ''/'')"

definition BINARY_DIR :: "host \<Rightarrow> string" where
  "BINARY_DIR h = module_dir h @ sep h @ ''bin''"

definition BINARY_PATH :: "host \<Rightarrow> string" where
  "BINARY_PATH h = BINARY_DIR h @ sep h @ BINARY_NAME h"

text \<open>\<^verbatim>\<open>BINARY_PATH.exists()\<close>\<close>

definition binary_exists :: "host \<Rightarrow> world \<Rightarrow> bool" where
  "binary_exists h w =
     (case files w (BINARY_NAME h) of None \<Rightarrow> False | Some n \<Rightarrow> resolves h n)"

subsection \<open>\<^verbatim>\<open>get_platform\<close>\<close>

definition os_map :: "(string \<times> string) list" where
  "os_map = [(''darwin'', ''darwin''), (''linux'', ''linux''), (''windows'', ''windows'')]"

definition arch_map :: "(string \<times> string) list" where
  "arch_map =
     [(''x86_64'', ''x64''), (''amd64'', ''x64''), (''arm64'', ''arm64''), (''aarch64'', ''arm64'')]"

text \<open>Python's \<^verbatim>\<open>not v\<close> for the result of \<^verbatim>\<open>dict.get\<close>: \<^verbatim>\<open>None\<close> and the empty string are false.\<close>

definition falsy :: "string option \<Rightarrow> bool" where
  "falsy v = (case v of None \<Rightarrow> True | Some s \<Rightarrow> s = [])"

text \<open>
  Lines 20 to 32. After the test of line 29 both lookups have succeeded, so the last
  branch of the \<open>case\<close> below is never taken; it only spares the model a partial
  projection out of \<open>option\<close>.
\<close>

definition get_platform :: "host \<Rightarrow> error + string" where
  "get_platform h =
     (let system = lower (platform_system h);
          machine = lower (platform_machine h);
          os_name = map_of os_map system;
          arch_name = map_of arch_map machine
      in if falsy os_name \<or> falsy arch_name
         then Inl (RuntimeError (''Unsupported platform: '' @ system @ ''-'' @ machine))
         else (case (os_name, arch_name) of
                 (Some os, Some arch) \<Rightarrow> Inr (os @ ''-'' @ arch)
               | _ \<Rightarrow> Inl (RuntimeError (''Unsupported platform: '' @ system @ ''-'' @ machine))))"

subsection \<open>\<^verbatim>\<open>download_binary\<close>\<close>

text \<open>The f-string of line 38.\<close>

definition artifact_url :: "string \<Rightarrow> string" where
  "artifact_url plat =
     ''https://github.com/'' @ GITHUB_REPO @ ''/releases/download/'' @ version
       @ ''/bivvy-'' @ plat @ ''.tar.gz''"

text \<open>
  The loop of lines 46 to 49 over the members of the archive \<open>tar\<close>: every member named
  \<^verbatim>\<open>bivvy\<close> is renamed to \<^verbatim>\<open>BINARY_NAME\<close> and extracted, in the order of the
  archive. The first argument list is the whole archive, the second what is left of it.
\<close>

fun extract_members :: "host \<Rightarrow> tarinfo list \<Rightarrow> tarinfo list \<Rightarrow> unit io" where
  "extract_members h tar [] = return ()"
| "extract_members h tar (member # rest) =
     (if name member = ''bivvy''
      then andThen (tar_extract h tar rest (member\<lparr>name := BINARY_NAME h\<rparr>))
             (\<lambda>_. extract_members h tar rest)
      else extract_members h tar rest)"

text \<open>\<^verbatim>\<open>0o755\<close>\<close>

definition mode_755 :: nat where
  "mode_755 = 7 * 64 + 5 * 8 + 5"

definition download_binary :: "host \<Rightarrow> unit io" where
  "download_binary h =
     andThen (lift (get_platform h)) (\<lambda>plat.
     andThen (print (''Downloading bivvy from '' @ artifact_url plat)) (\<lambda>_.
     andThen (mkdir h) (\<lambda>_.
     andThen (urlopen h (artifact_url plat)) (\<lambda>response.
     andThen (lift (tarfile_open response)) (\<lambda>tar.
     andThen (extract_members h tar tar) (\<lambda>_.
     andThen (if sys_platform h \<noteq> ''win32'' then chmod h (BINARY_NAME h) mode_755 else return ()) (\<lambda>_.
     print ''bivvy installed successfully'')))))))"

subsection \<open>\<^verbatim>\<open>ensure_binary\<close> and \<^verbatim>\<open>main\<close>\<close>

definition ensure_binary :: "host \<Rightarrow> string io" where
  "ensure_binary h w =
     andThen (if \<not> binary_exists h w then download_binary h else return ())
       (\<lambda>_. return (BINARY_PATH h)) w"

text \<open>
  \<^verbatim>\<open>subprocess.run([str(binary), *args], check=False)\<close> where \<^verbatim>\<open>binary\<close> is
  \<^verbatim>\<open>BINARY_PATH\<close>: there must be something at the path, and the operating system must
  accept to start it for the calling user (it refuses a directory, a file the user may
  not execute, a file that is no program); then the child runs and its return code comes
  back. The child is opaque: it is taken to leave \<^verbatim>\<open>BINARY_DIR\<close> alone.
\<close>

definition subprocess_run :: "host \<Rightarrow> string list \<Rightarrow> int io" where
  "subprocess_run h argv w =
     (case files w (BINARY_NAME h) of
        None \<Rightarrow> (Inl (FileNotFoundError (BINARY_PATH h)), w)
      | Some n \<Rightarrow>
          if \<not> resolves h n then (Inl (FileNotFoundError (BINARY_PATH h)), w)
          else
            (case exec_error h n of
               Some e \<Rightarrow> (Inl e, w)
             | None \<Rightarrow> (Inr (child h argv), emit (Spawn argv) w)))"

text \<open>
  The exit status of the process after \<^verbatim>\<open>sys.exit(code)\<close>. Outside Windows the
  status that a parent reads has eight bits: the interpreter hands the code to
  \<^verbatim>\<open>exit\<close> as a C \<^verbatim>\<open>int\<close> and the operating system keeps the low byte, so
  \<^verbatim>\<open>sys.exit(-9)\<close> ends with status 247 and \<^verbatim>\<open>sys.exit(256)\<close> with status 0. For
  a code outside the range of a 32-bit integer, and on Windows, the model leaves the
  status to the host.
\<close>

definition exit_status :: "host \<Rightarrow> int \<Rightarrow> int" where
  "exit_status h code =
     (if sys_platform h \<noteq> ''win32'' \<and> - (2 ^ 31) \<le> code \<and> code < 2 ^ 31
      then code mod 256 else os_status h code)"

text \<open>
  \<^verbatim>\<open>sys.exit(code)\<close> is the last statement of \<^verbatim>\<open>main\<close> and nothing catches the
  \<^verbatim>\<open>SystemExit\<close> it raises: the process ends. A run of \<^verbatim>\<open>main\<close> gives \<open>Inr s\<close>
  when it reaches \<^verbatim>\<open>sys.exit\<close>, \<open>s\<close> being the exit status of the launcher, and
  \<open>Inl e\<close> when the exception \<open>e\<close> ended it before.
\<close>

definition sys_exit :: "host \<Rightarrow> int \<Rightarrow> int io" where
  "sys_exit h code = return (exit_status h code)"

definition main :: "host \<Rightarrow> int io" where
  "main h =
     andThen (ensure_binary h) (\<lambda>binary.
     andThen (subprocess_run h (binary # drop 1 (sys_argv h))) (\<lambda>returncode.
     sys_exit h returncode))"

subsection \<open>Reading a trace\<close>

fun is_spawn :: "event \<Rightarrow> bool" where
  "is_spawn (Spawn _) = True"
| "is_spawn _ = False"

fun is_urlopen :: "event \<Rightarrow> bool" where
  "is_urlopen (Urlopen _) = True"
| "is_urlopen _ = False"

fun is_extract :: "event \<Rightarrow> bool" where
  "is_extract (Extract _) = True"
| "is_extract _ = False"

definition spawns :: "world \<Rightarrow> event list" where
  "spawns w = filter is_spawn (trace w)"

definition fetches :: "world \<Rightarrow> event list" where
  "fetches w = filter is_urlopen (trace w)"

definition extractions :: "world \<Rightarrow> event list" where
  "extractions w = filter is_extract (trace w)"

text \<open>The members the loop selects.\<close>

definition matching :: "tarinfo list \<Rightarrow> tarinfo list" where
  "matching ms = filter (\<lambda>m. name m = ''bivvy'') ms"

subsection \<open>Example hosts\<close>

text \<open>
  A host whose network serves one body at one URL and nothing elsewhere, on which the
  directory can be made, and whose binary returns \<open>rc\<close> whatever its arguments. Its
  reader holds the last 6656 bytes of an archive. Its user is unprivileged: a file
  without the owner's write bit cannot be written over, a directory is not replaced by a
  file nor a file by a directory; only a regular file with the owner's execute bit can
  be started.
\<close>

definition serving :: "string \<Rightarrow> payload \<Rightarrow> string \<Rightarrow> error + payload" where
  "serving u body url = (if url = u then Inr body else Inl URLError)"

definition owner_write :: "tarinfo \<Rightarrow> node option \<Rightarrow> (error \<times> node option) option" where
  "owner_write m existing =
     (case (type m, existing) of
        (REGTYPE, Some (File c p)) \<Rightarrow>
          if bit p 7 then None else Some (PermissionError (name m), existing)
      | (REGTYPE, Some (Dir p)) \<Rightarrow> Some (OSError ''Is a directory'', existing)
      | (DIRTYPE, Some (File c p)) \<Rightarrow> Some (OSError ''File exists'', existing)
      | _ \<Rightarrow> None)"

definition owner_exec :: "node \<Rightarrow> error option" where
  "owner_exec n =
     (case n of
        File c p \<Rightarrow> if bit p 6 then None else Some (PermissionError ''Permission denied'')
      | _ \<Rightarrow> Some (PermissionError ''Permission denied''))"

definition mk_host ::
  "string \<Rightarrow> string \<Rightarrow> string \<Rightarrow> string list \<Rightarrow> (string \<Rightarrow> error + payload) \<Rightarrow> int \<Rightarrow> host" where
  "mk_host plat sys mach argv net rc =
     \<lparr>sys_platform = plat, platform_system = sys, platform_machine = mach, sys_argv = argv,
      module_dir = ''/site-packages/bivvy'', network = net, child = (\<lambda>_. rc),
      mkdir_error = None, held = (\<lambda>_. 6656), os_error = owner_write,
      special_resolves = False, exec_error = owner_exec, os_status = (\<lambda>code. code mod 2 ^ 32)\<rparr>"

definition offline :: "string \<Rightarrow> error + payload" where
  "offline url = Inl URLError"

definition fresh :: world where
  "fresh = \<lparr>files = Map.empty, trace = []\<rparr>"

text \<open>A world in which the binary is already installed and executable.\<close>

definition cached :: world where
  "cached = \<lparr>files = [''bivvy'' \<mapsto> File ''ELF'' mode_755], trace = []\<rparr>"

text \<open>A disk that is full after the first two bytes of a file.\<close>

definition disk_full :: "tarinfo \<Rightarrow> node option \<Rightarrow> (error \<times> node option) option" where
  "disk_full m existing =
     Some (OSError ''No space left on device'', Some (File (take 2 (data m)) (6 * 64 + 4 * 8 + 4)))"

text \<open>
  Archives of regular files: one matching member among decoys, none, two, two of which
  the first is read-only, and one whose matching member has 20480 bytes.
\<close>

definition member :: "string \<Rightarrow> string \<Rightarrow> tarinfo" where
  "member n d = \<lparr>name = n, type = REGTYPE, mode = 6 * 64 + 4 * 8 + 4, data = d\<rparr>"

definition one_entry_archive :: "tarinfo list" where
  "one_entry_archive = [member ''LICENSE'' ''MIT'', member ''bivvy'' ''ELF'', member ''README.md'' ''docs'']"

definition no_entry_archive :: "tarinfo list" where
  "no_entry_archive = [member ''LICENSE'' ''MIT'', member ''README.md'' ''docs'']"

definition two_entries_archive :: "tarinfo list" where
  "two_entries_archive = [member ''bivvy'' ''old'', member ''LICENSE'' ''MIT'', member ''bivvy'' ''new'']"

definition read_only_first_archive :: "tarinfo list" where
  "read_only_first_archive =
     [(member ''bivvy'' ''old'')\<lparr>mode := 5 * 64 + 5 * 8 + 5\<rparr>, member ''LICENSE'' ''MIT'',
      member ''bivvy'' ''new'']"

definition large_entry_archive :: "tarinfo list" where
  "large_entry_archive = [member ''bivvy'' (replicate 20480 (CHR ''x''))]"

definition linux_host :: "tarinfo list \<Rightarrow> string list \<Rightarrow> int \<Rightarrow> host" where
  "linux_host ms argv rc =
     mk_host ''linux'' ''Linux'' ''x86_64'' argv (serving (artifact_url ''linux-x64'') (GzipTar ms)) rc"

definition windows_host :: "tarinfo list \<Rightarrow> string list \<Rightarrow> int \<Rightarrow> host" where
  "windows_host ms argv rc =
     mk_host ''win32'' ''Windows'' ''AMD64'' argv (serving (artifact_url ''windows-x64'') (GzipTar ms)) rc"

subsection \<open>Notions used in the proofs\<close>

text \<open>A block keeps the events that satisfy \<open>P\<close> when it adds none of them to the trace.\<close>

definition keeps :: "(event \<Rightarrow> bool) \<Rightarrow> 'a io \<Rightarrow> bool" where
  "keeps P m = (\<forall>w. filter P (trace (snd (m w))) = filter P (trace w))"

text \<open>The entries of the directory after the given members were written one after the other.\<close>

definition write_all :: "host \<Rightarrow> tarinfo list \<Rightarrow> (string \<rightharpoonup> node) \<Rightarrow> (string \<rightharpoonup> node)" where
  "write_all h ms fs = foldl (\<lambda>fs m. fs(BINARY_NAME h \<mapsto> node_of m)) fs ms"

text \<open>The events of extracting the given members under the name of the binary.\<close>

definition extracted :: "host \<Rightarrow> tarinfo list \<Rightarrow> event list" where
  "extracted h ms = map (\<lambda>m. Extract (m\<lparr>name := BINARY_NAME h\<rparr>)) ms"

section \<open>Facts about the building blocks\<close>

lemma emit_simps [simp]:
  "files (emit ev w) = files w" "trace (emit ev w) = trace w @ [ev]"
  by (simp_all add: emit_def)

lemma matching_simps [simp]:
  "matching [] = []"
  "matching (m # ms) = (if name m = ''bivvy'' then m # matching ms else matching ms)"
  by (simp_all add: matching_def)

lemma keepsD: "keeps P m \<Longrightarrow> m w = (r, w') \<Longrightarrow> filter P (trace w') = filter P (trace w)"
  by (auto simp: keeps_def dest: spec[where x=w])

lemma keeps_return: "keeps P (return x)"
  by (simp add: keeps_def return_def)

lemma keeps_lift: "keeps P (lift r)"
  by (simp add: keeps_def lift_def)

lemma keeps_andThen:
  assumes "keeps P m" and "\<And>x. keeps P (f x)"
  shows "keeps P (andThen m f)"
  unfolding keeps_def
proof
  fix w
  obtain r w' where mw: "m w = (r, w')" by (cases "m w")
  have t: "filter P (trace w') = filter P (trace w)"
    using keepsD [OF assms(1) mw] .
  show "filter P (trace (snd (andThen m f w))) = filter P (trace w)"
  proof (cases r)
    case (Inl e)
    then show ?thesis using mw t by (simp add: andThen_def)
  next
    case (Inr x)
    obtain r2 w2 where fw: "f x w' = (r2, w2)" by (cases "f x w'")
    have "filter P (trace w2) = filter P (trace w')"
      using keepsD [OF assms(2) fw] .
    then show ?thesis using mw t Inr fw by (simp add: andThen_def)
  qed
qed

lemma keeps_print: "\<not> P (Print msg) \<Longrightarrow> keeps P (print msg)"
  by (simp add: keeps_def print_def)

lemma keeps_mkdir: "\<not> P Mkdir \<Longrightarrow> keeps P (mkdir h)"
  by (simp add: keeps_def mkdir_def split: option.splits)

lemma keeps_urlopen: "\<not> P (Urlopen url) \<Longrightarrow> keeps P (urlopen h url)"
  by (simp add: keeps_def urlopen_def)

lemma keeps_tar_extract: "\<not> P (Extract m) \<Longrightarrow> keeps P (tar_extract h tar rest m)"
  by (simp add: keeps_def tar_extract_def split: option.splits prod.splits)

lemma keeps_chmod: "\<not> P (Chmod f md) \<Longrightarrow> keeps P (chmod h f md)"
  by (simp add: keeps_def chmod_def split: option.splits)

lemma keeps_extract_members:
  assumes "\<And>m. \<not> P (Extract m)"
  shows "keeps P (extract_members h tar ms)"
  by (induction ms) (simp_all add: keeps_return keeps_andThen keeps_tar_extract assms)

lemma keeps_spawn_download_binary: "keeps is_spawn (download_binary h)"
  unfolding download_binary_def
  by (intro keeps_andThen keeps_lift keeps_print keeps_mkdir keeps_urlopen
        keeps_extract_members) (simp_all add: keeps_chmod keeps_return keeps_print)

lemma keeps_spawn_ensure_binary: "keeps is_spawn (ensure_binary h)"
proof -
  have "keeps is_spawn (andThen (if b then download_binary h else return ())
          (\<lambda>_. return (BINARY_PATH h)))" for b
    by (intro keeps_andThen) (simp_all add: keeps_spawn_download_binary keeps_return)
  then show ?thesis
    by (simp add: keeps_def ensure_binary_def)
qed

lemma andThen_lift_Inr: "andThen (lift (Inr x)) f w = f x w"
  by (simp add: andThen_def lift_def)

lemma andThen_lift_Inl: "andThen (lift (Inl e)) f w = (Inl e, w)"
  by (simp add: andThen_def lift_def)

lemma andThen_print: "andThen (print msg) f w = f () (emit (Print msg) w)"
  by (simp add: andThen_def print_def)

lemma andThen_mkdir:
  "andThen (mkdir h) f w =
     (case mkdir_error h of Some e \<Rightarrow> (Inl e, w) | None \<Rightarrow> f () (emit Mkdir w))"
  by (simp add: andThen_def mkdir_def split: option.splits)

lemma andThen_urlopen:
  "andThen (urlopen h url) f w =
     (case network h url of
        Inl e \<Rightarrow> (Inl e, emit (Urlopen url) w)
      | Inr response \<Rightarrow> f response (emit (Urlopen url) w))"
  by (simp add: andThen_def urlopen_def split: sum.splits)

lemma andThen_chmod:
  "andThen (chmod h fname md) g w =
     (case files w fname of
        None \<Rightarrow> (Inl (FileNotFoundError fname), w)
      | Some n \<Rightarrow>
          if resolves h n
          then g () (emit (Chmod fname md) (w\<lparr>files := (files w)(fname \<mapsto> set_perm md n)\<rparr>))
          else (Inl (FileNotFoundError fname), w))"
  by (simp add: andThen_def chmod_def split: option.splits)

lemma andThen_return: "andThen (return x) g w = g x w"
  by (simp add: andThen_def return_def)

text \<open>The part of \<^verbatim>\<open>download_binary\<close> that follows the extraction.\<close>

lemma keeps_finish:
  "\<not> P (Chmod (BINARY_NAME h) mode_755) \<Longrightarrow> \<not> P (Print ''bivvy installed successfully'') \<Longrightarrow>
     keeps P
       (andThen (if sys_platform h \<noteq> ''win32'' then chmod h (BINARY_NAME h) mode_755 else return ())
          (\<lambda>_. print ''bivvy installed successfully''))"
  by (intro keeps_andThen) (simp_all add: keeps_chmod keeps_return keeps_print)

text \<open>The part of \<^verbatim>\<open>download_binary\<close> that follows \<^verbatim>\<open>urlopen\<close>.\<close>

lemma keeps_urlopen_unpack:
  "keeps is_urlopen
     (andThen (lift (tarfile_open response)) (\<lambda>tar.
      andThen (extract_members h tar tar) (\<lambda>_.
      andThen (if sys_platform h \<noteq> ''win32'' then chmod h (BINARY_NAME h) mode_755 else return ()) (\<lambda>_.
      print ''bivvy installed successfully''))))"
  by (intro keeps_andThen keeps_lift keeps_extract_members)
    (simp_all add: keeps_chmod keeps_return keeps_print)

lemma download_binary_fetches:
  assumes gp: "get_platform h = Inr plat" and mk: "mkdir_error h = None"
  shows "fetches (snd (download_binary h w)) = fetches w @ [Urlopen (artifact_url plat)]"
proof -
  let ?w2 = "emit (Urlopen (artifact_url plat))
               (emit Mkdir (emit (Print (''Downloading bivvy from '' @ artifact_url plat)) w))"
  let ?rest = "\<lambda>response. andThen (lift (tarfile_open response)) (\<lambda>tar.
      andThen (extract_members h tar tar) (\<lambda>_.
      andThen (if sys_platform h \<noteq> ''win32'' then chmod h (BINARY_NAME h) mode_755 else return ()) (\<lambda>_.
      print ''bivvy installed successfully'')))"
  have eq: "download_binary h w =
      (case network h (artifact_url plat) of Inl e \<Rightarrow> (Inl e, ?w2) | Inr response \<Rightarrow> ?rest response ?w2)"
    unfolding download_binary_def gp andThen_lift_Inr andThen_print andThen_mkdir mk
      andThen_urlopen
    by simp
  have w2: "fetches ?w2 = fetches w @ [Urlopen (artifact_url plat)]"
    by (simp add: fetches_def)
  show ?thesis
  proof (cases "network h (artifact_url plat)")
    case (Inl e)
    then show ?thesis using eq w2 by simp
  next
    case (Inr response)
    obtain r w' where rw: "?rest response ?w2 = (r, w')" by (cases "?rest response ?w2")
    have "filter is_urlopen (trace w') = filter is_urlopen (trace ?w2)"
      using keepsD [OF keeps_urlopen_unpack rw] .
    then show ?thesis using eq Inr rw w2 by (simp add: fetches_def)
  qed
qed


lemma download_binary_upto_extract:
  assumes gp: "get_platform h = Inr plat"
    and mk: "mkdir_error h = None"
    and net: "network h (artifact_url plat) = Inr (GzipTar ms)"
  shows "download_binary h w =
     andThen (extract_members h ms ms)
       (\<lambda>_. andThen (if sys_platform h \<noteq> ''win32'' then chmod h (BINARY_NAME h) mode_755
                      else return ())
              (\<lambda>_. print ''bivvy installed successfully''))
       (w\<lparr>trace := trace w @ [Print (''Downloading bivvy from '' @ artifact_url plat), Mkdir,
                              Urlopen (artifact_url plat)]\<rparr>)"
proof -
  have tar: "tarfile_open (GzipTar ms) = Inr ms"
    by (simp add: tarfile_open_def)
  show ?thesis
    by (simp add: download_binary_def gp andThen_lift_Inr andThen_print andThen_mkdir mk
        andThen_urlopen net tar emit_def)
qed

lemma node_of_renamed [simp]: "node_of (m\<lparr>name := n\<rparr>) = node_of m"
  by (simp add: node_of_def split: kind.splits)

lemma write_all_Nil [simp]: "write_all h [] fs = fs"
  by (simp add: write_all_def)

lemma write_all_Cons:
  "write_all h (m # ms) fs = write_all h ms (fs(BINARY_NAME h \<mapsto> node_of m))"
  by (simp add: write_all_def)

lemma write_all_last:
  "ms \<noteq> [] \<Longrightarrow> write_all h ms fs = fs(BINARY_NAME h \<mapsto> node_of (last ms))"
proof (induction ms arbitrary: fs)
  case Nil
  then show ?case by simp
next
  case (Cons m ms)
  show ?case
  proof (cases "ms = []")
    case True
    then show ?thesis by (simp add: write_all_Cons)
  next
    case False
    have l: "last (m # ms) = last ms"
      using False by simp
    have "write_all h (m # ms) fs = write_all h ms (fs(BINARY_NAME h \<mapsto> node_of m))"
      by (rule write_all_Cons)
    also have "\<dots> = (fs(BINARY_NAME h \<mapsto> node_of m))(BINARY_NAME h \<mapsto> node_of (last ms))"
      by (rule Cons.IH [OF False])
    also have "\<dots> = fs(BINARY_NAME h \<mapsto> node_of (last ms))"
      by (rule fun_upd_upd)
    finally show ?thesis
      unfolding l .
  qed
qed

lemma extracted_simps [simp]:
  "extracted h [] = []"
  "extracted h (m # ms) = Extract (m\<lparr>name := BINARY_NAME h\<rparr>) # extracted h ms"
  by (simp_all add: extracted_def)

lemma filter_extracted [simp]: "filter is_extract (extracted h ms) = extracted h ms"
  by (induction ms) simp_all

text \<open>One extraction: what it leaves when it returns, and that it logs nothing when it raises.\<close>

lemma tar_extract_Inr:
  assumes "tar_extract h tar rest m w = (Inr x, w1)"
  shows "w1 = w\<lparr>files := (files w)(name m \<mapsto> node_of m), trace := trace w @ [Extract m]\<rparr>"
  using assms
  by (auto simp: tar_extract_def emit_def split: if_splits option.splits prod.splits)

lemma tar_extract_Inl:
  assumes "tar_extract h tar rest m w = (Inl e, w1)"
  shows "trace w1 = trace w"
  using assms
  by (auto simp: tar_extract_def emit_def split: if_splits option.splits prod.splits)

text \<open>The loop skips an archive without a member named \<^verbatim>\<open>bivvy\<close>.\<close>

lemma extract_members_none:
  "matching ms = [] \<Longrightarrow> extract_members h tar ms w = (Inr (), w)"
  by (induction ms) (simp_all add: return_def split: if_splits)

text \<open>The loop when it returns: every matching member was written, in order.\<close>

lemma extract_members_Inr:
  assumes "extract_members h tar ms w = (Inr (), w')"
  shows "w' = w\<lparr>files := write_all h (matching ms) (files w),
                 trace := trace w @ extracted h (matching ms)\<rparr>"
  using assms
proof (induction ms arbitrary: w)
  case Nil
  then show ?case by (simp add: return_def)
next
  case (Cons m ms)
  show ?case
  proof (cases "name m = ''bivvy''")
    case False
    then show ?thesis using Cons by simp
  next
    case True
    let ?m = "m\<lparr>name := BINARY_NAME h\<rparr>"
    obtain r w1 where t: "tar_extract h tar ms ?m w = (r, w1)"
      by (cases "tar_extract h tar ms ?m w")
    have run: "andThen (tar_extract h tar ms ?m) (\<lambda>_. extract_members h tar ms) w = (Inr (), w')"
      using Cons.prems True by simp
    have r: "r = Inr ()"
      using run t by (cases r) (simp_all add: andThen_def)
    have rest: "extract_members h tar ms w1 = (Inr (), w')"
      using run t r by (simp add: andThen_def)
    have w1: "w1 = w\<lparr>files := (files w)(BINARY_NAME h \<mapsto> node_of m),
                     trace := trace w @ [Extract ?m]\<rparr>"
      using tar_extract_Inr [of h tar ms ?m w "()" w1] t r by simp
    show ?thesis
      unfolding Cons.IH [OF rest] w1 using True by (simp add: write_all_Cons)
  qed
qed

text \<open>The loop in any case: the extractions it logs are the first matching members, in order.\<close>

lemma extract_members_prefix:
  "\<exists>k\<le>length (matching ms).
     trace (snd (extract_members h tar ms w)) = trace w @ extracted h (take k (matching ms))"
proof (induction ms arbitrary: w)
  case Nil
  then show ?case by (simp add: return_def)
next
  case (Cons m ms)
  show ?case
  proof (cases "name m = ''bivvy''")
    case False
    then show ?thesis using Cons [of w] by simp
  next
    case True
    let ?m = "m\<lparr>name := BINARY_NAME h\<rparr>"
    obtain r w1 where t: "tar_extract h tar ms ?m w = (r, w1)"
      by (cases "tar_extract h tar ms ?m w")
    show ?thesis
    proof (cases r)
      case (Inl e)
      have "trace (snd (extract_members h tar (m # ms) w)) = trace w"
        using True t Inl tar_extract_Inl [of h tar ms ?m w e w1] by (simp add: andThen_def)
      then have "trace (snd (extract_members h tar (m # ms) w))
                   = trace w @ extracted h (take 0 (matching (m # ms)))"
        by simp
      then show ?thesis
        by (intro exI [of _ 0]) simp
    next
      case (Inr u)
      have w1: "trace w1 = trace w @ [Extract ?m]"
        using tar_extract_Inr [of h tar ms ?m w u w1] t Inr by simp
      obtain k where k: "k \<le> length (matching ms)"
        and tr: "trace (snd (extract_members h tar ms w1)) = trace w1 @ extracted h (take k (matching ms))"
        using Cons [of w1] by blast
      have "trace (snd (extract_members h tar (m # ms) w))
              = trace w @ extracted h (take (Suc k) (matching (m # ms)))"
        using True t Inr tr w1 by (simp add: andThen_def)
      moreover have "Suc k \<le> length (matching (m # ms))"
        using True k by simp
      ultimately show ?thesis
        by blast
    qed
  qed
qed

lemma ensure_binary_Inr:
  "ensure_binary h w = (Inr p, w') \<Longrightarrow> p = BINARY_PATH h"
  by (auto simp: ensure_binary_def andThen_def return_def split: prod.splits sum.splits if_splits)


lemma ensure_binary_absent:
  "\<not> binary_exists h w \<Longrightarrow>
     ensure_binary h w = andThen (download_binary h) (\<lambda>_. return (BINARY_PATH h)) w"
  by (simp add: ensure_binary_def)

lemma ensure_binary_fst_Inl:
  assumes "\<not> binary_exists h w" and "fst (download_binary h w) = Inl e"
  shows "fst (ensure_binary h w) = Inl e"
proof -
  obtain w' where "download_binary h w = (Inl e, w')"
    using assms(2) by (cases "download_binary h w") simp
  then show ?thesis
    using assms(1) by (simp add: ensure_binary_def andThen_def)
qed



section \<open>Platform resolution\<close>

lemma map_of_os_map:
  "map_of os_map s = (if s \<in> {''darwin'', ''linux'', ''windows''} then Some s else None)"
  by (simp add: os_map_def)

lemma map_of_arch_map:
  "map_of arch_map m =
     (if m = ''x86_64'' \<or> m = ''amd64'' then Some ''x64''
      else if m = ''arm64'' \<or> m = ''aarch64'' then Some ''arm64'' else None)"
  by (simp add: arch_map_def)

lemma get_platform_eq:
  "get_platform h =
     (let s = lower (platform_system h); m = lower (platform_machine h) in
      if s \<in> {''darwin'', ''linux'', ''windows''} \<and> m \<in> {''x86_64'', ''amd64'', ''arm64'', ''aarch64''}
      then Inr (s @ ''-'' @ (if m = ''x86_64'' \<or> m = ''amd64'' then ''x64'' else ''arm64''))
      else Inl (RuntimeError (''Unsupported platform: '' @ s @ ''-'' @ m)))"
  unfolding get_platform_def Let_def map_of_os_map map_of_arch_map falsy_def
  by auto

lemma lower_Darwin: "lower ''Darwin'' = ''darwin''"
  by code_simp

lemma lower_Linux: "lower ''Linux'' = ''linux''"
  by code_simp

lemma lower_Windows: "lower ''Windows'' = ''windows''"
  by code_simp

lemma lower_FreeBSD: "lower ''FreeBSD'' = ''freebsd''"
  by code_simp

lemma lower_SunOS: "lower ''SunOS'' = ''sunos''"
  by code_simp

lemma lower_arm64: "lower ''arm64'' = ''arm64''"
  by code_simp

lemma lower_x86_64: "lower ''x86_64'' = ''x86_64''"
  by code_simp

lemma lower_AMD64: "lower ''AMD64'' = ''amd64''"
  by code_simp

lemma lower_sparc: "lower ''sparc'' = ''sparc''"
  by code_simp

lemmas lower_examples =
  lower_Darwin lower_Linux lower_Windows lower_FreeBSD lower_SunOS lower_arm64 lower_x86_64
  lower_AMD64 lower_sparc

text \<open>
  C4. When the lower-cased system name is a key of \<open>os_map\<close> and the lower-cased machine
  name is a key of \<open>arch_map\<close>, \<open>get_platform\<close> returns the tag \<open>os-arch\<close>: the system
  name itself, and \<open>x64\<close> for both \<open>x86_64\<close> and \<open>amd64\<close>, \<open>arm64\<close> for both \<open>arm64\<close>
  and \<open>aarch64\<close>. For every other pair it raises the \<open>RuntimeError\<close> that stands for
  an unsupported platform.
\<close>

theorem get_platform_known_pairs:
  "(lower (platform_system h) \<in> {''darwin'', ''linux'', ''windows''}
      \<and> lower (platform_machine h) \<in> {''x86_64'', ''amd64''}
      \<longrightarrow> get_platform h = Inr (lower (platform_system h) @ ''-x64''))
   \<and> (lower (platform_system h) \<in> {''darwin'', ''linux'', ''windows''}
      \<and> lower (platform_machine h) \<in> {''arm64'', ''aarch64''}
      \<longrightarrow> get_platform h = Inr (lower (platform_system h) @ ''-arm64''))
   \<and> (lower (platform_system h) \<notin> fst ` set os_map \<or> lower (platform_machine h) \<notin> fst ` set arch_map
      \<longrightarrow> (\<exists>msg. get_platform h = Inl (RuntimeError msg)))
   \<and> fst ` set os_map = {''darwin'', ''linux'', ''windows''}
   \<and> fst ` set arch_map = {''x86_64'', ''amd64'', ''arm64'', ''aarch64''}"
proof -
  have keys: "fst ` set os_map = {''darwin'', ''linux'', ''windows''}"
    "fst ` set arch_map = {''x86_64'', ''amd64'', ''arm64'', ''aarch64''}"
    by (auto simp: os_map_def arch_map_def)
  show ?thesis
    unfolding keys by (auto simp: get_platform_eq Let_def)
qed

theorem get_platform_known_pairs_witness:
  "get_platform (mk_host ''darwin'' ''Darwin'' ''arm64'' [] offline 0) = Inr ''darwin-arm64''
   \<and> get_platform (mk_host ''linux'' ''Linux'' ''x86_64'' [] offline 0) = Inr ''linux-x64''
   \<and> get_platform (mk_host ''win32'' ''Windows'' ''AMD64'' [] offline 0) = Inr ''windows-x64''
   \<and> (\<exists>msg. get_platform (mk_host ''freebsd14'' ''FreeBSD'' ''AMD64'' [] offline 0)
         = Inl (RuntimeError msg))"
  using get_platform_known_pairs [of "mk_host ''darwin'' ''Darwin'' ''arm64'' [] offline 0"]
    get_platform_known_pairs [of "mk_host ''linux'' ''Linux'' ''x86_64'' [] offline 0"]
    get_platform_known_pairs [of "mk_host ''win32'' ''Windows'' ''AMD64'' [] offline 0"]
    get_platform_known_pairs [of "mk_host ''freebsd14'' ''FreeBSD'' ''AMD64'' [] offline 0"]
  by (simp add: mk_host_def lower_examples)

text \<open>
  C5, as the code has it. The message of the error is built from the variables
  \<open>system\<close> and \<open>machine\<close>, which hold the strings after \<^verbatim>\<open>.lower()\<close>: whenever a lookup
  misses, the error is \<open>Unsupported platform: \<close> followed by the lower-cased system name,
  a hyphen and the lower-cased machine name.
\<close>

theorem get_platform_error_lowercased:
  assumes "map_of os_map (lower (platform_system h)) = None
           \<or> map_of arch_map (lower (platform_machine h)) = None"
  shows "get_platform h =
           Inl (RuntimeError (''Unsupported platform: '' @ lower (platform_system h)
                                @ ''-'' @ lower (platform_machine h)))"
  using assms by (auto simp: get_platform_def Let_def falsy_def)

theorem get_platform_error_lowercased_witness:
  "map_of os_map (lower ''SunOS'') = None
   \<and> get_platform (mk_host ''sunos5'' ''SunOS'' ''sparc'' [] offline 0)
       = Inl (RuntimeError ''Unsupported platform: sunos-sparc'')"
  using get_platform_error_lowercased [of "mk_host ''sunos5'' ''SunOS'' ''sparc'' [] offline 0"]
  by (simp add: mk_host_def lower_examples os_map_def)

text \<open>
  C5, as the claim states it, fails: on a host that reports \<open>SunOS\<close> the error does not
  contain the string the host reported.
\<close>

theorem get_platform_error_not_raw:
  "platform_system (mk_host ''sunos5'' ''SunOS'' ''sparc'' [] offline 0) = ''SunOS''
   \<and> get_platform (mk_host ''sunos5'' ''SunOS'' ''sparc'' [] offline 0)
       = Inl (RuntimeError ''Unsupported platform: sunos-sparc'')
   \<and> \<not> sublist ''SunOS'' ''Unsupported platform: sunos-sparc''"
proof -
  have "\<not> sublist ''SunOS'' ''Unsupported platform: sunos-sparc''"
    by code_simp
  then show ?thesis
    by (simp add: get_platform_eq mk_host_def lower_examples)
qed

section \<open>Facts about the example hosts\<close>

lemma linux_host_simps [simp]:
  "get_platform (linux_host ms argv rc) = Inr ''linux-x64''"
  "mkdir_error (linux_host ms argv rc) = None"
  "network (linux_host ms argv rc) (artifact_url ''linux-x64'') = Inr (GzipTar ms)"
  "held (linux_host ms argv rc) tar = 6656"
  "os_error (linux_host ms argv rc) = owner_write"
  "exec_error (linux_host ms argv rc) = owner_exec"
  "sys_platform (linux_host ms argv rc) = ''linux''"
  "BINARY_NAME (linux_host ms argv rc) = ''bivvy''"
  "sys_argv (linux_host ms argv rc) = argv"
  "child (linux_host ms argv rc) a = rc"
  "BINARY_PATH (linux_host ms argv rc) = ''/site-packages/bivvy/bin/bivvy''"
  by (simp_all add: linux_host_def mk_host_def get_platform_eq lower_examples serving_def
      BINARY_NAME_def BINARY_PATH_def BINARY_DIR_def sep_def)

lemma windows_host_simps [simp]:
  "get_platform (windows_host ms argv rc) = Inr ''windows-x64''"
  "mkdir_error (windows_host ms argv rc) = None"
  "network (windows_host ms argv rc) (artifact_url ''windows-x64'') = Inr (GzipTar ms)"
  "held (windows_host ms argv rc) tar = 6656"
  "os_error (windows_host ms argv rc) = owner_write"
  "exec_error (windows_host ms argv rc) = owner_exec"
  "sys_platform (windows_host ms argv rc) = ''win32''"
  "BINARY_NAME (windows_host ms argv rc) = ''bivvy.exe''"
  "sys_argv (windows_host ms argv rc) = argv"
  "child (windows_host ms argv rc) a = rc"
  by (simp_all add: windows_host_def mk_host_def get_platform_eq lower_examples serving_def
      BINARY_NAME_def)

lemma matching_examples [simp]:
  "matching one_entry_archive = [member ''bivvy'' ''ELF'']"
  "matching no_entry_archive = []"
  "matching two_entries_archive = [member ''bivvy'' ''old'', member ''bivvy'' ''new'']"
  "matching read_only_first_archive
     = [(member ''bivvy'' ''old'')\<lparr>mode := 5 * 64 + 5 * 8 + 5\<rparr>, member ''bivvy'' ''new'']"
  "matching large_entry_archive = [member ''bivvy'' (replicate 20480 (CHR ''x''))]"
  by (simp_all add: one_entry_archive_def no_entry_archive_def two_entries_archive_def
      read_only_first_archive_def large_entry_archive_def member_def)

lemma host_update_simps [simp]:
  "BINARY_NAME (h\<lparr>os_error := e\<rparr>) = BINARY_NAME h"
  "BINARY_NAME (h\<lparr>held := k\<rparr>) = BINARY_NAME h"
  "get_platform (h\<lparr>os_error := e\<rparr>) = get_platform h"
  "get_platform (h\<lparr>held := k\<rparr>) = get_platform h"
  by (simp_all add: BINARY_NAME_def get_platform_def)

lemma member_simps [simp]:
  "name (member n d) = n" "type (member n d) = REGTYPE" "mode (member n d) = 420"
  "data (member n d) = d" "(member n d)\<lparr>name := n'\<rparr> = member n' d"
  by (simp_all add: member_def)

lemma mode_755_eq: "mode_755 = 493"
  by (simp add: mode_755_def)

lemma fresh_absent: "\<not> binary_exists h fresh"
  by (simp add: binary_exists_def fresh_def)


text \<open>The sizes that decide whether the reader can go back to a member.\<close>

lemma behind_member:
  "behind (member n d) rest = blocks (length d) + sum_list (map footprint rest)"
  by (simp add: behind_def member_size_def)

lemma footprint_member: "footprint (member n d) = 512 + blocks (length d)"
  by (simp add: footprint_def member_size_def)

text \<open>A regular member that starts further back than the buffer is long is never reached.\<close>

lemma tar_extract_out_of_reach:
  assumes "type m = REGTYPE" and "DEFAULT_BUFFER_SIZE < behind m rest"
  shows "tar_extract h tar rest m w = (Inl UnsupportedOperation, w)"
  using assms by (simp add: tar_extract_def seek_ok_def)

lemma extract_large_entry:
  "extract_members h tar [member ''bivvy'' (replicate 20480 (CHR ''x''))] w
     = (Inl UnsupportedOperation, w)"
proof -
  have "tar_extract h tar [] (member (BINARY_NAME h) (replicate 20480 (CHR ''x''))) w
          = (Inl UnsupportedOperation, w)"
    by (rule tar_extract_out_of_reach)
      (simp_all add: behind_member blocks_def DEFAULT_BUFFER_SIZE_def)
  then show ?thesis
    by (simp add: andThen_def)
qed


lemma download_two_entries_linux:
  "download_binary (linux_host two_entries_archive argv rc) fresh =
     (Inr (),
      \<lparr>files = [''bivvy'' \<mapsto> File ''new'' mode_755],
       trace = [Print (''Downloading bivvy from '' @ artifact_url ''linux-x64''), Mkdir,
                Urlopen (artifact_url ''linux-x64''), Extract (member ''bivvy'' ''old''),
                Extract (member ''bivvy'' ''new''),
                Chmod ''bivvy'' mode_755, Print ''bivvy installed successfully'']\<rparr>)"
proof -
  let ?h = "linux_host two_entries_archive argv rc"
  have x: "extract_members ?h two_entries_archive two_entries_archive w =
             (Inr (), w\<lparr>files := (files w)(''bivvy'' \<mapsto> File ''new'' 420),
                        trace := trace w @ [Extract (member ''bivvy'' ''old''),
                                            Extract (member ''bivvy'' ''new'')]\<rparr>)"
    if "files w ''bivvy'' = None" for w
    using that
    by (simp add: two_entries_archive_def member_def andThen_def tar_extract_def seek_ok_def
        behind_def footprint_def blocks_def member_size_def DEFAULT_BUFFER_SIZE_def
        owner_write_def node_of_def emit_def return_def)
  show ?thesis
    unfolding download_binary_upto_extract [of ?h "''linux-x64''" two_entries_archive fresh,
        simplified]
    by (simp add: andThen_def x fresh_def chmod_def resolves_def set_perm_def print_def
        emit_def member_def)
qed



lemma fail_platform:
  "fst (download_binary (mk_host ''sunos5'' ''SunOS'' ''sparc'' argv offline 0) fresh)
     = Inl (RuntimeError ''Unsupported platform: sunos-sparc'')"
  by (simp add: download_binary_def get_platform_eq mk_host_def lower_examples andThen_lift_Inl)

lemma fail_fetch:
  "fst (download_binary (mk_host ''linux'' ''Linux'' ''x86_64'' argv offline 0) fresh)
     = Inl URLError"
  by (simp add: download_binary_def get_platform_eq mk_host_def lower_examples andThen_lift_Inr
      andThen_print andThen_mkdir andThen_urlopen offline_def)

lemma fail_open:
  "fst (download_binary (mk_host ''linux'' ''Linux'' ''x86_64'' argv
          (serving (artifact_url ''linux-x64'') NotGzipTar) 0) fresh)
     = Inl ReadError"
  by (simp add: download_binary_def get_platform_eq mk_host_def lower_examples andThen_lift_Inr
      andThen_print andThen_mkdir andThen_urlopen serving_def tarfile_open_def andThen_lift_Inl)

lemma fail_seek:
  "download_binary ((linux_host large_entry_archive argv rc)\<lparr>held := k\<rparr>) fresh =
     (Inl UnsupportedOperation,
      \<lparr>files = Map.empty,
       trace = [Print (''Downloading bivvy from '' @ artifact_url ''linux-x64''), Mkdir,
                Urlopen (artifact_url ''linux-x64'')]\<rparr>)"
proof -
  let ?h = "(linux_host large_entry_archive argv rc)\<lparr>held := k\<rparr>"
  have h: "get_platform ?h = Inr ''linux-x64''" "mkdir_error ?h = None"
    "network ?h (artifact_url ''linux-x64'') = Inr (GzipTar large_entry_archive)"
    by simp_all
  have x: "extract_members ?h large_entry_archive large_entry_archive w = (Inl UnsupportedOperation, w)"
    for w
    using extract_large_entry [of ?h large_entry_archive w]
    by (simp only: large_entry_archive_def)
  show ?thesis
    unfolding download_binary_upto_extract [OF h(1) h(2) h(3)]
    by (simp add: andThen_def x fresh_def)
qed

lemma fail_write:
  "download_binary ((linux_host one_entry_archive argv rc)\<lparr>os_error := disk_full\<rparr>) fresh =
     (Inl (OSError ''No space left on device''),
      \<lparr>files = [''bivvy'' \<mapsto> File ''EL'' 420],
       trace = [Print (''Downloading bivvy from '' @ artifact_url ''linux-x64''), Mkdir,
                Urlopen (artifact_url ''linux-x64'')]\<rparr>)"
proof -
  let ?h = "(linux_host one_entry_archive argv rc)\<lparr>os_error := disk_full\<rparr>"
  have h: "get_platform ?h = Inr ''linux-x64''" "mkdir_error ?h = None"
    "network ?h (artifact_url ''linux-x64'') = Inr (GzipTar one_entry_archive)"
    by simp_all
  have x: "extract_members ?h one_entry_archive one_entry_archive w =
             (Inl (OSError ''No space left on device''),
              w\<lparr>files := (files w)(''bivvy'' \<mapsto> File ''EL'' 420)\<rparr>)"
    for w
    by (simp add: one_entry_archive_def andThen_def tar_extract_def seek_ok_def
        behind_member footprint_member blocks_def DEFAULT_BUFFER_SIZE_def disk_full_def)
  show ?thesis
    unfolding download_binary_upto_extract [OF h(1) h(2) h(3)]
    by (simp add: andThen_def x fresh_def)
qed

lemma fail_chmod:
  "fst (download_binary (linux_host no_entry_archive argv 0) fresh)
     = Inl (FileNotFoundError ''bivvy'')"
  unfolding download_binary_upto_extract [of "linux_host no_entry_archive argv 0" "''linux-x64''"
      no_entry_archive fresh, simplified]
  by (simp add: andThen_def extract_members_none andThen_chmod chmod_def fresh_def)

section \<open>Installation\<close>

text \<open>
  C8. The URL that \<^verbatim>\<open>download_binary\<close> opens is the concatenation of
  \<^verbatim>\<open>https://github.com/\<close>, the repository \<^verbatim>\<open>bivvy-dev/bivvy\<close>,
  \<^verbatim>\<open>/releases/download/\<close>, the version \<^verbatim>\<open>1.0.1\<close>, \<^verbatim>\<open>/bivvy-\<close>, the platform tag and
  \<^verbatim>\<open>.tar.gz\<close>; the tag that \<^verbatim>\<open>get_platform\<close> returns is an operating system, a hyphen
  and an architecture. The URL is a function of the tag alone: whatever the world in
  which \<^verbatim>\<open>download_binary\<close> runs, once the platform is resolved and the directory
  made, it opens this URL and no other.
\<close>

theorem artifact_url_form:
  "artifact_url plat
     = ''https://github.com/bivvy-dev/bivvy/releases/download/1.0.1/bivvy-'' @ plat @ ''.tar.gz''
   \<and> (get_platform h = Inr plat \<longrightarrow>
        (\<exists>os arch. os \<in> {''darwin'', ''linux'', ''windows''} \<and> arch \<in> {''x64'', ''arm64''}
           \<and> plat = os @ ''-'' @ arch))
   \<and> (get_platform h = Inr plat \<and> mkdir_error h = None \<longrightarrow>
        fetches (snd (download_binary h w)) = fetches w @ [Urlopen (artifact_url plat)])"
proof -
  have url: "artifact_url plat
     = ''https://github.com/bivvy-dev/bivvy/releases/download/1.0.1/bivvy-'' @ plat @ ''.tar.gz''"
    by (simp add: artifact_url_def GITHUB_REPO_def version_def)
  have tag: "\<exists>os arch. os \<in> {''darwin'', ''linux'', ''windows''} \<and> arch \<in> {''x64'', ''arm64''}
           \<and> plat = os @ ''-'' @ arch" if "get_platform h = Inr plat"
    using that unfolding get_platform_eq Let_def
    by (auto split: if_splits)
  show ?thesis
    using url tag download_binary_fetches by blast
qed

theorem artifact_url_form_witness:
  "artifact_url ''linux-x64''
     = ''https://github.com/bivvy-dev/bivvy/releases/download/1.0.1/bivvy-linux-x64.tar.gz''
   \<and> get_platform (linux_host one_entry_archive [] 0) = Inr ''linux-x64''
   \<and> mkdir_error (linux_host one_entry_archive [] 0) = None
   \<and> fetches (snd (download_binary (linux_host one_entry_archive [] 0) fresh))
       = [Urlopen ''https://github.com/bivvy-dev/bivvy/releases/download/1.0.1/bivvy-linux-x64.tar.gz'']
   \<and> fetches (snd (download_binary (linux_host one_entry_archive [] 0) cached))
       = [Urlopen ''https://github.com/bivvy-dev/bivvy/releases/download/1.0.1/bivvy-linux-x64.tar.gz'']"
  using artifact_url_form [of "''linux-x64''" "linux_host one_entry_archive [] 0" fresh]
    artifact_url_form [of "''linux-x64''" "linux_host one_entry_archive [] 0" cached]
  by (simp add: fetches_def fresh_def cached_def)

text \<open>
  C6 asks that an archive with one member named \<^verbatim>\<open>bivvy\<close> among decoys is installed.
  For a binary of 20480 bytes it is not. \<^verbatim>\<open>getmembers()\<close> has read the response to
  the end of the archive when \<^verbatim>\<open>tar.extract\<close> looks for the data of the member, which
  now lies 20480 bytes back, more than the reader's buffer of 8192 bytes can hold; the
  HTTP response cannot be rewound, so \<^verbatim>\<open>download_binary\<close> ends with
  \<^verbatim>\<open>io.UnsupportedOperation\<close> and the directory stays empty. This does not depend on the
  host: it is the same on a host whose reader holds a full buffer.
\<close>

theorem download_binary_large_entry_raises:
  "matching large_entry_archive = [member ''bivvy'' (replicate 20480 (CHR ''x''))]
   \<and> download_binary (linux_host large_entry_archive [] 0) fresh =
       (Inl UnsupportedOperation,
        \<lparr>files = Map.empty,
         trace = [Print (''Downloading bivvy from '' @ artifact_url ''linux-x64''), Mkdir,
                  Urlopen (artifact_url ''linux-x64'')]\<rparr>)
   \<and> download_binary ((linux_host large_entry_archive [] 0)\<lparr>held := (\<lambda>_. 8192)\<rparr>) fresh =
       (Inl UnsupportedOperation,
        \<lparr>files = Map.empty,
         trace = [Print (''Downloading bivvy from '' @ artifact_url ''linux-x64''), Mkdir,
                  Urlopen (artifact_url ''linux-x64'')]\<rparr>)"
proof -
  have same: "(linux_host large_entry_archive [] 0)\<lparr>held := (\<lambda>_. 6656)\<rparr>
                = linux_host large_entry_archive [] 0"
    by (simp add: linux_host_def mk_host_def)
  show ?thesis
    using fail_seek [where argv = "[]" and rc = 0 and k = "\<lambda>_. 6656"]
      fail_seek [where argv = "[]" and rc = 0 and k = "\<lambda>_. 8192"]
    by (simp add: same)
qed

text \<open>
  C10, as the code has it. The members named \<^verbatim>\<open>bivvy\<close> are extracted to
  \<^verbatim>\<open>BINARY_NAME\<close> one after the other in the order of the archive, and the loop ends
  at the first extraction that raises: the extractions made are always the first so many
  matching members, in order. When \<^verbatim>\<open>download_binary\<close> returns normally, every
  matching member was extracted, and if the last of them is a regular file, the file that
  remains holds its content (with mode \<^verbatim>\<open>0o755\<close> outside Windows).
\<close>

theorem download_binary_entries_in_order:
  assumes gp: "get_platform h = Inr plat"
    and net: "network h (artifact_url plat) = Inr (GzipTar ms)"
  shows "(\<exists>k. k \<le> length (matching ms)
            \<and> extractions (snd (download_binary h w))
                = extractions w
                  @ map (\<lambda>m. Extract (m\<lparr>name := BINARY_NAME h\<rparr>)) (take k (matching ms)))
         \<and> (fst (download_binary h w) = Inr () \<longrightarrow>
              extractions (snd (download_binary h w))
                = extractions w @ map (\<lambda>m. Extract (m\<lparr>name := BINARY_NAME h\<rparr>)) (matching ms)
              \<and> (matching ms \<noteq> [] \<and> type (last (matching ms)) = REGTYPE \<longrightarrow>
                   (\<exists>p. files (snd (download_binary h w)) (BINARY_NAME h)
                           = Some (File (data (last (matching ms))) p)
                        \<and> (sys_platform h \<noteq> ''win32'' \<longrightarrow> p = mode_755))))"
proof (cases "mkdir_error h")
  case (Some e)
  have "download_binary h w =
          (Inl e, emit (Print (''Downloading bivvy from '' @ artifact_url plat)) w)"
    by (simp add: download_binary_def gp andThen_lift_Inr andThen_print andThen_mkdir Some)
  then have "fst (download_binary h w) = Inl e"
    and "extractions (snd (download_binary h w))
           = extractions w @ map (\<lambda>m. Extract (m\<lparr>name := BINARY_NAME h\<rparr>)) (take 0 (matching ms))"
    by (simp_all add: extractions_def)
  then show ?thesis
    by (metis le0 sum.distinct(1))
next
  case None
  let ?fin = "\<lambda>_::unit. andThen (if sys_platform h \<noteq> ''win32'' then chmod h (BINARY_NAME h) mode_755
                                  else return ())
                         (\<lambda>_. print ''bivvy installed successfully'')"
  let ?w3 = "w\<lparr>trace := trace w @ [Print (''Downloading bivvy from '' @ artifact_url plat), Mkdir,
                                     Urlopen (artifact_url plat)]\<rparr>"
  have d: "download_binary h w = andThen (extract_members h ms ms) ?fin ?w3"
    by (rule download_binary_upto_extract [OF gp None net])
  have w3: "extractions ?w3 = extractions w"
    by (simp add: extractions_def)
  obtain r w4 where x: "extract_members h ms ms ?w3 = (r, w4)"
    by (cases "extract_members h ms ms ?w3")
  obtain k where k: "k \<le> length (matching ms)"
    and tr: "trace w4 = trace ?w3 @ extracted h (take k (matching ms))"
    using extract_members_prefix [of ms h ms ?w3] x by auto
  have e4: "extractions w4 = extractions w @ extracted h (take k (matching ms))"
    using tr w3 by (simp add: extractions_def)
  show ?thesis
  proof (cases r)
    case (Inl e)
    have "download_binary h w = (Inl e, w4)"
      using d x Inl by (simp add: andThen_def)
    then have "fst (download_binary h w) = Inl e"
      and "extractions (snd (download_binary h w)) = extractions w @ extracted h (take k (matching ms))"
      using e4 by simp_all
    then show ?thesis
      using k unfolding extracted_def by (metis sum.distinct(1))
  next
    case (Inr u)
    have w4: "w4 = ?w3\<lparr>files := write_all h (matching ms) (files ?w3),
                        trace := trace ?w3 @ extracted h (matching ms)\<rparr>"
      using extract_members_Inr [of h ms ms ?w3 w4] x Inr by simp
    have all: "extractions w4 = extractions w @ extracted h (matching ms)"
      using w3 by (simp add: w4 extractions_def)
    have d': "download_binary h w = ?fin () w4"
      using d x Inr by (simp add: andThen_def)
    have kept: "extractions (snd (download_binary h w)) = extractions w4"
    proof -
      obtain r5 w5 where f: "?fin () w4 = (r5, w5)" by (cases "?fin () w4")
      have "filter is_extract (trace w5) = filter is_extract (trace w4)"
        by (rule keepsD [OF keeps_finish f]) simp_all
      then show ?thesis
        using d' f by (simp add: extractions_def)
    qed
    have prefix: "\<exists>k. k \<le> length (matching ms)
            \<and> extractions (snd (download_binary h w))
                = extractions w
                  @ map (\<lambda>m. Extract (m\<lparr>name := BINARY_NAME h\<rparr>)) (take k (matching ms))"
      using kept all unfolding extracted_def
      by (intro exI [of _ "length (matching ms)"]) simp
    have last_wins: "files (snd (download_binary h w)) (BINARY_NAME h)
                     = Some (File (data (last (matching ms)))
                               (if sys_platform h = ''win32'' then mode (last (matching ms))
                                else mode_755))"
      if ne: "matching ms \<noteq> []" and reg: "type (last (matching ms)) = REGTYPE"
    proof -
      have n: "node_of (last (matching ms)) = File (data (last (matching ms))) (mode (last (matching ms)))"
        using reg by (simp add: node_of_def)
      have f4: "files w4 (BINARY_NAME h)
                  = Some (File (data (last (matching ms))) (mode (last (matching ms))))"
        by (simp add: w4 write_all_last [OF ne] n)
      show ?thesis
        unfolding d'
        by (simp add: andThen_chmod andThen_return f4 resolves_def set_perm_def print_def)
    qed
    have remains: "\<exists>p. files (snd (download_binary h w)) (BINARY_NAME h)
                           = Some (File (data (last (matching ms))) p)
                        \<and> (sys_platform h \<noteq> ''win32'' \<longrightarrow> p = mode_755)"
      if "matching ms \<noteq> []" and "type (last (matching ms)) = REGTYPE"
      using last_wins [OF that] by simp
    show ?thesis
      using prefix kept all remains unfolding extracted_def by simp
  qed
qed

theorem download_binary_entries_in_order_witness:
  "get_platform (linux_host two_entries_archive [] 0) = Inr ''linux-x64''
   \<and> network (linux_host two_entries_archive [] 0) (artifact_url ''linux-x64'')
       = Inr (GzipTar two_entries_archive)
   \<and> fst (download_binary (linux_host two_entries_archive [] 0) fresh) = Inr ()
   \<and> extractions (snd (download_binary (linux_host two_entries_archive [] 0) fresh))
       = [Extract (member ''bivvy'' ''old''), Extract (member ''bivvy'' ''new'')]
   \<and> files (snd (download_binary (linux_host two_entries_archive [] 0) fresh)) ''bivvy''
       = Some (File ''new'' 493)"
proof -
  have ok: "fst (download_binary (linux_host two_entries_archive [] 0) fresh) = Inr ()"
    by (simp add: download_two_entries_linux)
  show ?thesis
    using download_binary_entries_in_order [of "linux_host two_entries_archive [] 0"
        "''linux-x64''" two_entries_archive fresh] ok
    by (simp add: fresh_def extractions_def mode_755_eq)
qed

text \<open>
  C10, as the claim states it, fails. On a host whose user cannot write over a read-only
  file, with an archive whose first member named \<^verbatim>\<open>bivvy\<close> has mode \<^verbatim>\<open>0o555\<close>, the
  second extraction raises \<^verbatim>\<open>PermissionError\<close>: only the first member was extracted
  and its content stays, not the content of the last.
\<close>

theorem download_binary_read_only_first_entry:
  "download_binary (linux_host read_only_first_archive [] 0) fresh =
     (Inl (PermissionError ''bivvy''),
      \<lparr>files = [''bivvy'' \<mapsto> File ''old'' 365],
       trace = [Print (''Downloading bivvy from '' @ artifact_url ''linux-x64''), Mkdir,
                Urlopen (artifact_url ''linux-x64''),
                Extract ((member ''bivvy'' ''old'')\<lparr>mode := 365\<rparr>)]\<rparr>)
   \<and> data (last (matching read_only_first_archive)) = ''new''"
proof -
  let ?h = "linux_host read_only_first_archive [] 0"
  have x: "extract_members ?h read_only_first_archive read_only_first_archive w =
             (Inl (PermissionError ''bivvy''),
              w\<lparr>files := (files w)(''bivvy'' \<mapsto> File ''old'' 365),
                trace := trace w @ [Extract ((member ''bivvy'' ''old'')\<lparr>mode := 365\<rparr>)]\<rparr>)"
    if "files w ''bivvy'' = None" for w
    using that
    by (simp add: read_only_first_archive_def member_def andThen_def tar_extract_def seek_ok_def
        behind_def footprint_def blocks_def member_size_def DEFAULT_BUFFER_SIZE_def
        owner_write_def node_of_def emit_def)
  show ?thesis
    unfolding download_binary_upto_extract [of ?h "''linux-x64''" read_only_first_archive fresh,
        simplified]
    by (simp add: andThen_def x fresh_def)
qed

text \<open>
  C9. When the archive has no member named \<^verbatim>\<open>bivvy\<close> and the binary is not there
  yet, the outcome depends on the platform. Outside Windows \<^verbatim>\<open>chmod\<close> raises
  \<^verbatim>\<open>FileNotFoundError\<close>, the success message is not printed and no file is written.
  On Windows \<^verbatim>\<open>download_binary\<close> returns normally and its last action is to print
  the success message, although no file was written.
\<close>

theorem download_binary_missing_entry:
  assumes gp: "get_platform h = Inr plat"
    and mk: "mkdir_error h = None"
    and net: "network h (artifact_url plat) = Inr (GzipTar ms)"
    and none: "matching ms = []"
    and absent: "files w (BINARY_NAME h) = None"
  shows "(sys_platform h \<noteq> ''win32'' \<longrightarrow>
            download_binary h w =
              (Inl (FileNotFoundError (BINARY_NAME h)),
               w\<lparr>trace := trace w @ [Print (''Downloading bivvy from '' @ artifact_url plat),
                                      Mkdir, Urlopen (artifact_url plat)]\<rparr>))
         \<and> (sys_platform h = ''win32'' \<longrightarrow>
            download_binary h w =
              (Inr (),
               w\<lparr>trace := trace w @ [Print (''Downloading bivvy from '' @ artifact_url plat),
                                      Mkdir, Urlopen (artifact_url plat),
                                      Print ''bivvy installed successfully'']\<rparr>))"
proof -
  have x: "extract_members h ms ms w0 = (Inr (), w0)" for w0
    using none by (rule extract_members_none)
  show ?thesis
    unfolding download_binary_upto_extract [OF gp mk net]
    by (simp add: andThen_def x chmod_def absent return_def print_def emit_def)
qed

theorem download_binary_missing_entry_witness:
  "matching no_entry_archive = []
   \<and> files fresh ''bivvy'' = None
   \<and> download_binary (linux_host no_entry_archive [] 0) fresh =
       (Inl (FileNotFoundError ''bivvy''),
        \<lparr>files = Map.empty,
         trace = [Print (''Downloading bivvy from '' @ artifact_url ''linux-x64''), Mkdir,
                  Urlopen (artifact_url ''linux-x64'')]\<rparr>)
   \<and> download_binary (windows_host no_entry_archive [] 0) fresh =
       (Inr (),
        \<lparr>files = Map.empty,
         trace = [Print (''Downloading bivvy from '' @ artifact_url ''windows-x64''), Mkdir,
                  Urlopen (artifact_url ''windows-x64''),
                  Print ''bivvy installed successfully'']\<rparr>)"
  using download_binary_missing_entry [of "linux_host no_entry_archive [] 0" "''linux-x64''"
      no_entry_archive fresh]
    download_binary_missing_entry [of "windows_host no_entry_archive [] 0" "''windows-x64''"
      no_entry_archive fresh]
  by (simp add: fresh_def)

text \<open>
  C1 asks that an archive with no member named \<^verbatim>\<open>bivvy\<close> makes the installation
  fail. On a Windows host it does not. With the archive \<^verbatim>\<open>LICENSE\<close>,
  \<^verbatim>\<open>README.md\<close> and an empty directory, \<^verbatim>\<open>ensure_binary\<close> returns
  \<^verbatim>\<open>BINARY_PATH\<close> as if the binary were installed, the directory is still empty, and
  the last thing printed is the success message.
\<close>

theorem install_missing_entry_on_windows:
  "fst (ensure_binary (windows_host no_entry_archive [] 0) fresh)
     = Inr (BINARY_PATH (windows_host no_entry_archive [] 0))
   \<and> files (snd (ensure_binary (windows_host no_entry_archive [] 0) fresh)) = Map.empty
   \<and> last (trace (snd (ensure_binary (windows_host no_entry_archive [] 0) fresh)))
       = Print ''bivvy installed successfully''"
proof -
  let ?h = "windows_host no_entry_archive [] 0"
  have x: "extract_members ?h no_entry_archive no_entry_archive w0 = (Inr (), w0)" for w0
    by (rule extract_members_none) simp
  have d: "download_binary ?h fresh =
      (Inr (), \<lparr>files = Map.empty,
         trace = [Print (''Downloading bivvy from '' @ artifact_url ''windows-x64''), Mkdir,
                  Urlopen (artifact_url ''windows-x64''),
                  Print ''bivvy installed successfully'']\<rparr>)"
    unfolding download_binary_upto_extract [of ?h "''windows-x64''" no_entry_archive fresh,
        simplified]
    by (simp add: andThen_def x return_def print_def emit_def fresh_def)
  show ?thesis
    by (simp add: ensure_binary_absent [OF fresh_absent] andThen_def d return_def)
qed

section \<open>Launching\<close>




text \<open>
  C3. When \<^verbatim>\<open>ensure_binary\<close> raises, whichever of its steps raised, \<^verbatim>\<open>main\<close>
  ends with the same exception in the same world and has spawned no child. Conversely,
  a run of \<^verbatim>\<open>main\<close> that spawns a child is one in which \<^verbatim>\<open>ensure_binary\<close>
  returned, and the spawn is the one event that follows everything \<^verbatim>\<open>ensure_binary\<close> did.
\<close>

theorem install_error_aborts_before_spawn:
  "(fst (ensure_binary h w) = Inl e \<longrightarrow>
      main h w = (Inl e, snd (ensure_binary h w)) \<and> spawns (snd (main h w)) = spawns w)
   \<and> (spawns (snd (main h w)) \<noteq> spawns w \<longrightarrow>
        fst (ensure_binary h w) = Inr (BINARY_PATH h)
        \<and> trace (snd (main h w))
            = trace (snd (ensure_binary h w)) @ [Spawn (BINARY_PATH h # drop 1 (sys_argv h))])"
proof -
  obtain r w' where ens: "ensure_binary h w = (r, w')" by (cases "ensure_binary h w")
  have quiet: "spawns w' = spawns w"
    using keepsD [OF keeps_spawn_ensure_binary ens] by (simp add: spawns_def)
  show ?thesis
  proof (cases r)
    case (Inl e')
    then have "main h w = (Inl e', w')"
      using ens by (simp add: main_def andThen_def)
    then show ?thesis
      using ens Inl quiet by simp
  next
    case (Inr p)
    then have p: "p = BINARY_PATH h"
      using ens ensure_binary_Inr by simp
    show ?thesis
      using ens Inr p quiet
      by (auto simp: main_def andThen_def subprocess_run_def sys_exit_def return_def spawns_def
          split: option.splits)
  qed
qed

theorem install_error_aborts_before_spawn_witness:
  "fst (main (mk_host ''sunos5'' ''SunOS'' ''sparc'' [''bivvy'', ''run''] offline 0) fresh)
     = Inl (RuntimeError ''Unsupported platform: sunos-sparc'')
   \<and> spawns (snd (main (mk_host ''sunos5'' ''SunOS'' ''sparc'' [''bivvy'', ''run''] offline 0) fresh)) = []
   \<and> fst (main (mk_host ''linux'' ''Linux'' ''x86_64'' [''bivvy'', ''run''] offline 0) fresh)
       = Inl URLError
   \<and> spawns (snd (main (mk_host ''linux'' ''Linux'' ''x86_64'' [''bivvy'', ''run''] offline 0) fresh)) = []
   \<and> fst (main (mk_host ''linux'' ''Linux'' ''x86_64'' [''bivvy'', ''run'']
              (serving (artifact_url ''linux-x64'') NotGzipTar) 0) fresh)
       = Inl ReadError
   \<and> spawns (snd (main (mk_host ''linux'' ''Linux'' ''x86_64'' [''bivvy'', ''run'']
              (serving (artifact_url ''linux-x64'') NotGzipTar) 0) fresh)) = []
   \<and> fst (main ((linux_host large_entry_archive [''bivvy'', ''run''] 0)
              \<lparr>held := (\<lambda>_. 8192)\<rparr>) fresh)
       = Inl UnsupportedOperation
   \<and> spawns (snd (main ((linux_host large_entry_archive [''bivvy'', ''run''] 0)
              \<lparr>held := (\<lambda>_. 8192)\<rparr>) fresh)) = []
   \<and> fst (main ((linux_host one_entry_archive [''bivvy'', ''run''] 0)
              \<lparr>os_error := disk_full\<rparr>) fresh)
       = Inl (OSError ''No space left on device'')
   \<and> spawns (snd (main ((linux_host one_entry_archive [''bivvy'', ''run''] 0)
              \<lparr>os_error := disk_full\<rparr>) fresh)) = []
   \<and> fst (main (linux_host no_entry_archive [''bivvy'', ''run''] 0) fresh)
       = Inl (FileNotFoundError ''bivvy'')
   \<and> spawns (snd (main (linux_host no_entry_archive [''bivvy'', ''run''] 0) fresh)) = []"
proof -
  have none: "spawns fresh = []"
    by (simp add: spawns_def fresh_def)
  have aborts: "fst (main h fresh) = Inl e \<and> spawns (snd (main h fresh)) = []"
    if "fst (download_binary h fresh) = Inl e" for h e
  proof -
    have "fst (ensure_binary h fresh) = Inl e"
      using fresh_absent that by (rule ensure_binary_fst_Inl)
    then have "main h fresh = (Inl e, snd (ensure_binary h fresh))"
      and "spawns (snd (main h fresh)) = spawns fresh"
      using install_error_aborts_before_spawn [of h fresh e] by blast+
    then show ?thesis
      using none by simp
  qed
  have far: "fst (download_binary ((linux_host large_entry_archive [''bivvy'', ''run''] 0)
              \<lparr>held := (\<lambda>_. 8192)\<rparr>) fresh) = Inl UnsupportedOperation"
    by (simp add: fail_seek)
  have full: "fst (download_binary ((linux_host one_entry_archive [''bivvy'', ''run''] 0)
              \<lparr>os_error := disk_full\<rparr>) fresh) = Inl (OSError ''No space left on device'')"
    by (simp add: fail_write)
  show ?thesis
    using aborts [OF fail_platform] aborts [OF fail_fetch] aborts [OF fail_open]
      aborts [OF far] aborts [OF full] aborts [OF fail_chmod]
    by blast
qed



end
